theory Spec2Isabelle
  imports Complex_Main
begin

section \<open>JavaScript values\<close>

text \<open>
  The source is \<^verbatim>\<open>Tone/core/Time.js\<close>. Its numbers are JavaScript numbers. A finite
  number is modelled by the real it denotes; the two infinities and NaN are values of
  their own, because the source divides without any guard. Rounding, overflow and the
  sign of zero are not modelled: there is one zero.
\<close>

datatype jsnum = Fin real | PInf | NInf | NaN

fun is_neg :: "jsnum \<Rightarrow> bool" where
  "is_neg (Fin a) = (a < 0)"
| "is_neg NInf = True"
| "is_neg _ = False"

definition signed_inf :: "bool \<Rightarrow> jsnum" where
  "signed_inf neg = (if neg then NInf else PInf)"

instantiation jsnum :: "{uminus, plus, minus, times, inverse}"
begin

fun uminus_jsnum :: "jsnum \<Rightarrow> jsnum" where
  "uminus_jsnum (Fin a) = Fin (- a)"
| "uminus_jsnum PInf = NInf"
| "uminus_jsnum NInf = PInf"
| "uminus_jsnum NaN = NaN"

fun plus_jsnum :: "jsnum \<Rightarrow> jsnum \<Rightarrow> jsnum" where
  "plus_jsnum (Fin a) (Fin b) = Fin (a + b)"
| "plus_jsnum NaN _ = NaN"
| "plus_jsnum _ NaN = NaN"
| "plus_jsnum PInf NInf = NaN"
| "plus_jsnum NInf PInf = NaN"
| "plus_jsnum PInf _ = PInf"
| "plus_jsnum _ PInf = PInf"
| "plus_jsnum NInf _ = NInf"
| "plus_jsnum _ NInf = NInf"

definition minus_jsnum :: "jsnum \<Rightarrow> jsnum \<Rightarrow> jsnum" where
  "minus_jsnum a b = a + (- b)"

fun times_jsnum :: "jsnum \<Rightarrow> jsnum \<Rightarrow> jsnum" where
  "times_jsnum (Fin a) (Fin b) = Fin (a * b)"
| "times_jsnum NaN _ = NaN"
| "times_jsnum _ NaN = NaN"
| "times_jsnum a b =
     (if a = Fin 0 \<or> b = Fin 0 then NaN else signed_inf (is_neg a \<noteq> is_neg b))"

fun divide_jsnum :: "jsnum \<Rightarrow> jsnum \<Rightarrow> jsnum" where
  "divide_jsnum (Fin a) (Fin b) =
     (if b = 0 then (if a = 0 then NaN else signed_inf (a < 0)) else Fin (a / b))"
| "divide_jsnum NaN _ = NaN"
| "divide_jsnum _ NaN = NaN"
| "divide_jsnum (Fin a) _ = Fin 0"
| "divide_jsnum a (Fin b) = signed_inf (is_neg a \<noteq> (b < 0))"
| "divide_jsnum _ _ = NaN"

definition inverse_jsnum :: "jsnum \<Rightarrow> jsnum" where
  "inverse_jsnum a = divide (Fin 1) a"

instance ..

end

text \<open>
  The values a Time can hold or receive: the documented type of \<^verbatim>\<open>val\<close> is a number
  or a string, and the parser stores an array for a transport time. \<^verbatim>\<open>undefined\<close> is
  \<open>None\<close> of an option type wherever the source can meet it (an argument left out, an
  index out of range, a property that does not exist).
\<close>

datatype jsval = Number jsnum | String string | Array "jsval list"

text \<open>
  The environment of an evaluation: \<^verbatim>\<open>Tone.Transport\<close> (absent or present), the
  reading of the audio clock that \<^verbatim>\<open>this.now()\<close> returns, and the two conversions of
  the language between numbers and strings, which stay parameters.
\<close>

record transport =
  bpm_value :: jsnum
  PPQ :: jsnum
  timeSignatureOf :: jsnum

record env =
  Transport :: "transport option"
  clock :: jsnum
  numToString :: "jsnum \<Rightarrow> string"
  strToNum :: "string \<Rightarrow> jsnum"

fun join :: "string list \<Rightarrow> string" where
  "join [] = []"
| "join [s] = s"
| "join (s # ss) = s @ '','' @ join ss"

fun ToString :: "env \<Rightarrow> jsval \<Rightarrow> string" where
  "ToString e (Number n) = numToString e n"
| "ToString e (String s) = s"
| "ToString e (Array xs) = join (map (ToString e) xs)"

fun ToNumber :: "env \<Rightarrow> jsval option \<Rightarrow> jsnum" where
  "ToNumber e None = NaN"
| "ToNumber e (Some (Number n)) = n"
| "ToNumber e (Some (String s)) = strToNum e s"
| "ToNumber e (Some (Array xs)) = strToNum e (ToString e (Array xs))"

text \<open>\<^verbatim>\<open>a + b\<close>: numeric on two numbers, concatenation as soon as one side is a
  string or an array.\<close>

fun js_add :: "env \<Rightarrow> jsval \<Rightarrow> jsval \<Rightarrow> jsval" where
  "js_add e (Number a) (Number b) = Number (a + b)"
| "js_add e a b = String (ToString e a @ ToString e b)"

definition js_sub :: "env \<Rightarrow> jsval \<Rightarrow> jsval \<Rightarrow> jsval" where
  "js_sub e a b = Number (ToNumber e (Some a) - ToNumber e (Some b))"

definition js_mul :: "env \<Rightarrow> jsval \<Rightarrow> jsval \<Rightarrow> jsval" where
  "js_mul e a b = Number (ToNumber e (Some a) * ToNumber e (Some b))"

definition js_div :: "env \<Rightarrow> jsval \<Rightarrow> jsval \<Rightarrow> jsval" where
  "js_div e a b = Number (ToNumber e (Some a) / ToNumber e (Some b))"

text \<open>\<^verbatim>\<open>v[i]\<close>\<close>

fun js_index :: "jsval \<Rightarrow> nat \<Rightarrow> jsval option" where
  "js_index (Array xs) i = (if i < length xs then Some (xs ! i) else None)"
| "js_index (String s) i = (if i < length s then Some (String [s ! i]) else None)"
| "js_index (Number n) i = None"

section \<open>Time values\<close>

abbreviation Type_Divide :: string where "Type_Divide \<equiv> ''/''"
abbreviation Type_Subtract :: string where "Type_Subtract \<equiv> ''-''"
abbreviation Type_Add :: string where "Type_Add \<equiv> ''+''"
abbreviation Type_Multiply :: string where "Type_Multiply \<equiv> ''*''"
abbreviation Type_Quantize :: string where "Type_Quantize \<equiv> ''@''"
abbreviation Type_Now :: string where "Type_Now \<equiv> ''now''"
abbreviation Type_Negative :: string where "Type_Negative \<equiv> ''-''"

abbreviation Units_Measure :: string where "Units_Measure \<equiv> ''m''"
abbreviation Units_Duplet :: string where "Units_Duplet \<equiv> ''n''"
abbreviation Units_Triplet :: string where "Units_Triplet \<equiv> ''t''"
abbreviation Units_TransportTime :: string where "Units_TransportTime \<equiv> ''tr''"
abbreviation Units_Seconds :: string where "Units_Seconds \<equiv> ''s''"
abbreviation Units_Tick :: string where "Units_Tick \<equiv> ''i''"
abbreviation Units_Hertz :: string where "Units_Hertz \<equiv> ''hz''"

text \<open>
  A \<^verbatim>\<open>Tone.Time\<close> object has the fields \<^verbatim>\<open>_expressions\<close>, \<^verbatim>\<open>_units\<close> and
  \<^verbatim>\<open>_value\<close>; an entry of \<^verbatim>\<open>_expressions\<close> is \<^verbatim>\<open>{type, value}\<close>. Time values are
  trees here: an operand is owned by the value it is chained to.
\<close>

datatype time = Time (t_expressions: "expr list") (t_units: "string option") (t_value: jsval)
  and expr = Expr (e_type: "string option") (e_value: time)

text \<open>Modelled from the spec: \<^verbatim>\<open>Tone.prototype.defaultArg\<close> of Tone/core/Tone, which
  is not among the sources; the constructor defaults the magnitude to the Now sentinel when
  \<^verbatim>\<open>val\<close> is undefined, and keeps a given value.\<close>

definition defaultArg :: "'a option \<Rightarrow> 'a \<Rightarrow> 'a" where
  "defaultArg given fallback = (case given of None \<Rightarrow> fallback | Some v \<Rightarrow> v)"

text \<open>\<^verbatim>\<open>Tone.Time = function(val, units)\<close>, with or without \<^verbatim>\<open>new\<close>. The call of
  \<^verbatim>\<open>_parseExpr\<close> in its body is commented out, so the branch on \<^verbatim>\<open>units\<close> is empty.\<close>

definition Tone_Time :: "jsval option \<Rightarrow> string option \<Rightarrow> time" where
  "Tone_Time val units = Time [] units (defaultArg val (String Type_Now))"

definition beatInSeconds :: "env \<Rightarrow> jsnum" where
  "beatInSeconds e = (case Transport e of Some tr \<Rightarrow> Fin 60 / bpm_value tr | None \<Rightarrow> Fin 0)"

definition tickInSeconds :: "env \<Rightarrow> jsnum" where
  "tickInSeconds e = (case Transport e of Some tr \<Rightarrow> beatInSeconds e / PPQ tr | None \<Rightarrow> Fin 0)"

definition timeSignature :: "env \<Rightarrow> jsnum" where
  "timeSignature e = (case Transport e of Some tr \<Rightarrow> timeSignatureOf tr | None \<Rightarrow> Fin 0)"

text \<open>
  \<^verbatim>\<open>_evalValue\<close>. The variable \<^verbatim>\<open>beatTime\<close> is declared and assigned in the
  TransportTime case only; it is function-scoped, so the Measure case reads it as
  \<^verbatim>\<open>undefined\<close>.
\<close>

definition evalValue :: "env \<Rightarrow> time \<Rightarrow> jsval" where
  "evalValue e this =
    (let units = t_units this; val = t_value this in
     if units = Some Units_Seconds then val
     else if units = Some Units_Measure then
       (let beatTime = None in
        Number (timeSignature e * ToNumber e beatTime * ToNumber e (js_index val 0)))
     else if units = Some Units_Duplet then
       Number (beatInSeconds e * ToNumber e (Some val))
     else if units = Some Units_Triplet then
       Number (beatInSeconds e * ToNumber e (Some val) * (Fin 2 / Fin 3))
     else if units = Some Units_Tick then
       Number (ToNumber e (Some val) * tickInSeconds e)
     else if units = Some Units_Hertz then
       Number (Fin 1 / ToNumber e (Some val))
     else if units = Some Units_TransportTime then
       (let beatTime = beatInSeconds e;
            bars = timeSignature e * beatTime * ToNumber e (js_index val 0);
            beats = beatTime * ToNumber e (js_index val 1);
            sixteenths = (beatTime * ToNumber e (js_index val 2)) / Fin 4
        in Number (bars + beats + sixteenths))
     else Number (Fin 0))"

text \<open>\<^verbatim>\<open>_pushExpr(val, type, units)\<close>: \<^verbatim>\<open>val\<close> is a Time (\<open>Inl\<close>) or a raw value
  (\<open>Inr\<close>) that the constructor wraps.\<close>

definition pushExpr :: "time \<Rightarrow> time + jsval option \<Rightarrow> string option \<Rightarrow> string option \<Rightarrow> time" where
  "pushExpr this val type units =
    (let val' = (case val of Inl t \<Rightarrow> t | Inr v \<Rightarrow> Tone_Time v units)
     in Time (t_expressions this @ [Expr type val']) (t_units this) (t_value this))"

definition add :: "time \<Rightarrow> time + jsval option \<Rightarrow> string option \<Rightarrow> time" where
  "add this val units = pushExpr this val (Some Type_Add) units"

definition sub :: "time \<Rightarrow> time + jsval option \<Rightarrow> string option \<Rightarrow> time" where
  "sub this val units = pushExpr this val (Some Type_Subtract) units"

definition mult :: "time \<Rightarrow> time + jsval option \<Rightarrow> string option \<Rightarrow> time" where
  "mult this val units = pushExpr this val (Some Type_Multiply) units"




text \<open>
  \<^verbatim>\<open>eval(now)\<close>: \<open>eval_loop\<close> is the \<^verbatim>\<open>for\<close> loop over \<^verbatim>\<open>this._expressions\<close>, with
  the running \<^verbatim>\<open>val\<close>. An operand is evaluated by \<^verbatim>\<open>expr.value.eval()\<close>, with no
  argument; an entry whose type is none of the six cases leaves \<^verbatim>\<open>val\<close> as it is.
\<close>

fun eval :: "env \<Rightarrow> jsval option \<Rightarrow> time \<Rightarrow> jsval"
  and eval_loop :: "env \<Rightarrow> jsval option \<Rightarrow> jsval \<Rightarrow> expr list \<Rightarrow> jsval" where
  "eval e now (Time exprs units v) = eval_loop e now (evalValue e (Time exprs units v)) exprs"
| "eval_loop e now val [] = val"
| "eval_loop e now val (Expr type operand # rest) =
     eval_loop e now
       (if type = Some Type_Add then js_add e val (eval e None operand)
        else if type = Some Type_Subtract then js_sub e val (eval e None operand)
        else if type = Some Type_Multiply then js_mul e val (eval e None operand)
        else if type = Some Type_Divide then js_div e val (eval e None operand)
        else if type = Some Type_Now then js_add e val (defaultArg now (Number (clock e)))
        else if type = Some Type_Quantize then js_div e val (eval e None operand)
        else val)
       rest"

section \<open>The tokenizer\<close>

text \<open>
  Strings are lists of characters; a character is a code unit below 256. The regular
  expressions of \<^verbatim>\<open>Tone.Time._Expressions\<close> are anchored at the start of the string
  and of four shapes, so each shape is a constructor and \<open>re_match\<close> returns
  \<^verbatim>\<open>match[0]\<close>, or \<open>None\<close> for \<^verbatim>\<open>null\<close>.
\<close>

datatype error = SyntaxError string | TypeError

definition is_digit :: "char \<Rightarrow> bool" where
  "is_digit c = (c \<in> set ''0123456789'')"

definition is_space :: "char \<Rightarrow> bool" where
  "is_space c = (c \<in> set [CHR 0x09, CHR 0x0A, CHR 0x0B, CHR 0x0C, CHR 0x0D, CHR 0x20, CHR 0xA0])"

definition trim :: "string \<Rightarrow> string" where
  "trim s = rev (dropWhile is_space (rev (dropWhile is_space s)))"

definition upper :: "char \<Rightarrow> char" where
  "upper c =
    (case map_of (zip ''abcdefghijklmnopqrstuvwxyz'' ''ABCDEFGHIJKLMNOPQRSTUVWXYZ'') c of
       Some u \<Rightarrow> u | None \<Rightarrow> c)"

text \<open>Two characters match under the flag \<^verbatim>\<open>i\<close>.\<close>

definition ci_eq :: "char \<Rightarrow> char \<Rightarrow> bool" where
  "ci_eq a b = (upper a = upper b)"

datatype regexp =
    RDigitsThen string  \<comment> \<open>\<^verbatim>\<open>/^\d+n/i\<close>, with the letters that follow the digits\<close>
  | RTransport  \<comment> \<open>\<^verbatim>\<open>/^(\d+(\.\d+)?\:){1,2}(\d+(\.\d+)?)?/\<close>\<close>
  | RDigit  \<comment> \<open>\<^verbatim>\<open>/^\d/\<close>\<close>
  | RLit char  \<comment> \<open>one literal character, as \<^verbatim>\<open>/^\(/\<close> or \<^verbatim>\<open>/^\*/\<close>\<close>

text \<open>The length of the greedy match of \<^verbatim>\<open>\d+(\.\d+)?\<close> at the start of a string.\<close>

definition num_len :: "string \<Rightarrow> nat option" where
  "num_len s =
    (let ds = takeWhile is_digit s in
     if ds = [] then None
     else (case drop (length ds) s of
             c # r \<Rightarrow>
               (let fs = takeWhile is_digit r in
                if c = CHR ''.'' \<and> fs \<noteq> [] then Some (length ds + 1 + length fs)
                else Some (length ds))
           | [] \<Rightarrow> Some (length ds)))"

text \<open>\<^verbatim>\<open>\d+(\.\d+)?\:\<close>: the colon must follow the greedy match, since a shorter match
  of the number is followed by a digit or by the dot.\<close>

definition comp_len :: "string \<Rightarrow> nat option" where
  "comp_len s =
    (case num_len s of
       None \<Rightarrow> None
     | Some n \<Rightarrow> (case drop n s of c # _ \<Rightarrow> if c = CHR '':'' then Some (n + 1) else None
                  | [] \<Rightarrow> None))"

fun re_match :: "regexp \<Rightarrow> string \<Rightarrow> string option" where
  "re_match (RDigitsThen letters) s =
    (let ds = takeWhile is_digit s; rest = dropWhile is_digit s; k = length letters in
     if ds \<noteq> [] \<and> k \<le> length rest \<and> list_all2 ci_eq letters (take k rest)
     then Some (ds @ take k rest) else None)"
| "re_match RTransport s =
    (case comp_len s of
       None \<Rightarrow> None
     | Some n1 \<Rightarrow>
        (let n2 = (case comp_len (drop n1 s) of None \<Rightarrow> 0 | Some k \<Rightarrow> k);
             n3 = (case num_len (drop (n1 + n2) s) of None \<Rightarrow> 0 | Some k \<Rightarrow> k)
         in Some (take (n1 + n2 + n3) s)))"
| "re_match RDigit s = (case s of c # _ \<Rightarrow> if is_digit c then Some [c] else None | [] \<Rightarrow> None)"
| "re_match (RLit ch) s = (case s of c # _ \<Rightarrow> if c = ch then Some [c] else None | [] \<Rightarrow> None)"

record op =
  op_regexp :: regexp
  op_precedence :: "int option"
  op_name :: "string option"

record token =
  tok_group :: string
  tok_name :: "string option"
  tok_precedence :: "int option"
  tok_value :: string

text \<open>\<^verbatim>\<open>Tone.Time._Expressions\<close>, in the order of its keys, which is the order
  \<^verbatim>\<open>for ... in\<close> visits them. The entry \<^verbatim>\<open>"/"\<close> has the regular expression of
  \<^verbatim>\<open>"*"\<close>.\<close>

definition Expressions :: "(string \<times> (string \<times> op) list) list" where
  "Expressions =
    [(''value'',
       [(''n'', \<lparr>op_regexp = RDigitsThen ''n'', op_precedence = None, op_name = Some Units_Duplet\<rparr>),
        (''t'', \<lparr>op_regexp = RDigitsThen ''t'', op_precedence = None, op_name = Some Units_Triplet\<rparr>),
        (''m'', \<lparr>op_regexp = RDigitsThen ''m'', op_precedence = None, op_name = Some Units_Measure\<rparr>),
        (''i'', \<lparr>op_regexp = RDigitsThen ''i'', op_precedence = None, op_name = Some Units_Tick\<rparr>),
        (''hz'', \<lparr>op_regexp = RDigitsThen ''hz'', op_precedence = None, op_name = Some Units_Hertz\<rparr>),
        (''tr'', \<lparr>op_regexp = RTransport, op_precedence = None, op_name = Some Units_TransportTime\<rparr>),
        (''s'', \<lparr>op_regexp = RDigit, op_precedence = None, op_name = Some Units_Seconds\<rparr>)]),
     (''glue'',
       [(''('', \<lparr>op_regexp = RLit CHR ''('', op_precedence = None, op_name = None\<rparr>),
        ('')'', \<lparr>op_regexp = RLit CHR '')'', op_precedence = None, op_name = None\<rparr>),
        ('','', \<lparr>op_regexp = RLit CHR '','', op_precedence = None, op_name = None\<rparr>)]),
     (''binary'',
       [(''+'', \<lparr>op_regexp = RLit CHR ''+'', op_precedence = Some 1, op_name = Some Type_Add\<rparr>),
        (''-'', \<lparr>op_regexp = RLit CHR ''-'', op_precedence = Some 1, op_name = Some Type_Subtract\<rparr>),
        (''*'', \<lparr>op_regexp = RLit CHR ''*'', op_precedence = Some 0, op_name = Some Type_Multiply\<rparr>),
        (''/'', \<lparr>op_regexp = RLit CHR ''*'', op_precedence = Some 0, op_name = Some Type_Divide\<rparr>),
        (''@'', \<lparr>op_regexp = RLit CHR ''@'', op_precedence = Some 0, op_name = Some Type_Quantize\<rparr>)]),
     (''unary'',
       [(''neg'', \<lparr>op_regexp = RLit CHR ''-'', op_precedence = None, op_name = Some Type_Negative\<rparr>),
        (''now'', \<lparr>op_regexp = RLit CHR ''+'', op_precedence = None, op_name = Some Type_Now\<rparr>)])]"

text \<open>\<^verbatim>\<open>getNextToken\<close>: the inner loop over the operators of a group, the outer loop
  over the groups, and the \<^verbatim>\<open>throw\<close> after both.\<close>

fun getNextToken_group :: "string \<Rightarrow> string \<Rightarrow> (string \<times> op) list \<Rightarrow> token option" where
  "getNextToken_group expr type [] = None"
| "getNextToken_group expr type ((opName, op) # grp) =
    (case re_match (op_regexp op) expr of
       Some m \<Rightarrow> Some \<lparr>tok_group = type, tok_name = op_name op,
                      tok_precedence = op_precedence op, tok_value = m\<rparr>
     | None \<Rightarrow> getNextToken_group expr type grp)"

fun getNextToken_groups :: "string \<Rightarrow> (string \<times> (string \<times> op) list) list \<Rightarrow> error + token" where
  "getNextToken_groups expr [] = Inl (SyntaxError (''Unexpected token '' @ expr))"
| "getNextToken_groups expr ((type, grp) # groups) =
    (case getNextToken_group expr type grp of
       Some token \<Rightarrow> Inr token
     | None \<Rightarrow> getNextToken_groups expr groups)"

definition getNextToken :: "string \<Rightarrow> error + token" where
  "getNextToken expr = getNextToken_groups expr Expressions"

lemma takeWhile_le: "length (takeWhile P s) \<le> length s"
  by (induction s) auto

lemma num_len_bounds: "num_len s = Some n \<Longrightarrow> 0 < n \<and> n \<le> length s"
proof -
  assume a: "num_len s = Some n"
  let ?ds = "takeWhile is_digit s"
  have ne: "?ds \<noteq> []" using a unfolding num_len_def Let_def by (auto split: if_splits)
  have s: "s = ?ds @ drop (length ?ds) s"
    by (metis append_take_drop_id takeWhile_eq_take)
  show ?thesis
  proof (cases "drop (length ?ds) s")
    case Nil
    then show ?thesis using a ne takeWhile_le[of is_digit s] unfolding num_len_def Let_def by (auto split: if_splits)
  next
    case (Cons c r)
    have "length s = length ?ds + 1 + length r" using s Cons
      by (metis One_nat_def add.assoc length_Cons length_append plus_1_eq_Suc)
    moreover have "length (takeWhile is_digit r) \<le> length r" by (rule takeWhile_le)
    ultimately show ?thesis using a ne Cons unfolding num_len_def Let_def by (auto split: if_splits)
  qed
qed

lemma comp_len_bounds: "comp_len s = Some n \<Longrightarrow> 0 < n \<and> n \<le> length s"
  unfolding comp_len_def
  apply (auto split: option.splits list.splits if_splits dest!: num_len_bounds)
  by (metis Suc_leI drop_eq_Nil2 linorder_not_le list.distinct(1))

lemma re_match_bounds: "re_match r s = Some m \<Longrightarrow> m \<noteq> [] \<and> length m \<le> length s"
proof (cases r)
  case (RDigitsThen letters)
  assume a: "re_match r s = Some m"
  have "length (takeWhile is_digit s) + length (dropWhile is_digit s) = length s"
    by (metis length_append takeWhile_dropWhile_id)
  then show ?thesis using a RDigitsThen by (auto simp: Let_def split: if_splits)
next
  case RTransport
  assume a: "re_match r s = Some m"
  then show ?thesis using RTransport
    by (auto simp: Let_def split: option.splits dest!: comp_len_bounds)
next
  case RDigit
  assume "re_match r s = Some m"
  then show ?thesis using RDigit by (auto split: list.splits if_splits)
next
  case (RLit c)
  assume "re_match r s = Some m"
  then show ?thesis using RLit by (auto split: list.splits if_splits)
qed

lemma getNextToken_group_bounds:
  "getNextToken_group expr type grp = Some t \<Longrightarrow> tok_value t \<noteq> [] \<and> length (tok_value t) \<le> length expr"
  by (induction expr type grp rule: getNextToken_group.induct)
     (auto split: option.splits dest: re_match_bounds)

lemma getNextToken_groups_bounds:
  "getNextToken_groups expr groups = Inr t \<Longrightarrow> tok_value t \<noteq> [] \<and> length (tok_value t) \<le> length expr"
  by (induction expr groups rule: getNextToken_groups.induct)
     (auto split: option.splits dest: getNextToken_group_bounds)

lemma getNextToken_bounds:
  "getNextToken expr = Inr t \<Longrightarrow> tok_value t \<noteq> [] \<and> length (tok_value t) \<le> length expr"
  unfolding getNextToken_def by (rule getNextToken_groups_bounds)

lemma length_trim: "length (trim s) \<le> length s"
  unfolding trim_def
  by (metis length_dropWhile_le length_rev order_trans)

text \<open>
  \<^verbatim>\<open>_tokenize\<close>: \<open>tokenize_loop\<close> is its \<^verbatim>\<open>while\<close> loop, with the remaining
  \<^verbatim>\<open>expr\<close> and the \<^verbatim>\<open>tokens\<close> pushed so far. It ends because a match is never
  empty. The lexer it returns reads the tokens from position \<^verbatim>\<open>-1\<close> on: the lexer is
  the list of the tokens not yet consumed, \<^verbatim>\<open>peek\<close> is its head and \<^verbatim>\<open>next\<close> drops
  it; both give \<^verbatim>\<open>undefined\<close> on the empty list.
\<close>

function tokenize_loop :: "string \<Rightarrow> token list \<Rightarrow> error + token list" where
  "tokenize_loop expr tokens =
    (if length expr > 0 then
       (let expr' = trim expr in
        case getNextToken expr' of
          Inl err \<Rightarrow> Inl err
        | Inr token \<Rightarrow> tokenize_loop (drop (length (tok_value token)) expr') (tokens @ [token]))
     else Inr tokens)"
  by pat_completeness auto
termination
proof (relation "measure (\<lambda>(expr, tokens). length expr)")
  show "wf (measure (\<lambda>(expr, tokens). length expr))" by simp
next
  fix expr :: string and tokens :: "token list" and x token
  assume "0 < length expr" "x = trim expr" "getNextToken x = Inr token"
  then show "((drop (length (tok_value token)) x, tokens @ [token]), expr, tokens)
       \<in> measure (\<lambda>(expr, tokens). length expr)"
    using getNextToken_bounds[of x token] length_trim[of expr]
    by (cases "tok_value token") auto
qed

declare tokenize_loop.simps [simp del]

lemma tokenize_loop_unfold:
  "tokenize_loop [] tokens = Inr tokens"
  "expr \<noteq> [] \<Longrightarrow> getNextToken (trim expr) = Inl err \<Longrightarrow> tokenize_loop expr tokens = Inl err"
  "expr \<noteq> [] \<Longrightarrow> getNextToken (trim expr) = Inr token \<Longrightarrow>
     tokenize_loop expr tokens =
       tokenize_loop (drop (length (tok_value token)) (trim expr)) (tokens @ [token])"
  by (subst tokenize_loop.simps, simp)+

definition tokenize :: "string \<Rightarrow> error + token list" where
  "tokenize expr = tokenize_loop expr []"

section \<open>The parser\<close>

text \<open>
  A node of the syntax tree is a \<^verbatim>\<open>Tone.Time\<close> (what \<^verbatim>\<open>_parsePrimary\<close> returns for a
  value), the object \<^verbatim>\<open>{type, args : [left, right]}\<close> of \<^verbatim>\<open>_parseExpression\<close>, or the
  object \<^verbatim>\<open>{operator, method, args : [expr]}\<close> of \<^verbatim>\<open>_parseUnary\<close>, whose
  \<^verbatim>\<open>method\<close> is \<^verbatim>\<open>token.type\<close>, a property no token has.
\<close>

datatype tree =
    TimeNode time
  | BinaryNode (node_type: "string option") tree tree
  | UnaryNode (operator: string) tree

text \<open>\<^verbatim>\<open>parseInt\<close> and \<^verbatim>\<open>parseFloat\<close> of the language, on any string.\<close>

definition digit_val :: "char \<Rightarrow> nat option" where
  "digit_val c =
     map_of (zip ''0123456789abcdefABCDEF''
                 [0, 1, 2, 3, 4, 5, 6, 7, 8, 9, 10, 11, 12, 13, 14, 15, 10, 11, 12, 13, 14, 15]) c"

definition is_radix_digit :: "nat \<Rightarrow> char \<Rightarrow> bool" where
  "is_radix_digit R c = (case digit_val c of Some d \<Rightarrow> d < R | None \<Rightarrow> False)"

definition digits_value :: "nat \<Rightarrow> string \<Rightarrow> nat" where
  "digits_value R ds =
     foldl (\<lambda>acc c. acc * R + (case digit_val c of Some d \<Rightarrow> d | None \<Rightarrow> 0)) 0 ds"

definition strip_sign :: "string \<Rightarrow> bool \<times> string" where
  "strip_sign s =
    (case s of
       c # r \<Rightarrow> if c = CHR ''-'' then (True, r) else if c = CHR ''+'' then (False, r) else (False, s)
     | [] \<Rightarrow> (False, s))"

definition parseInt :: "string \<Rightarrow> jsnum" where
  "parseInt string =
    (let S = dropWhile is_space string;
         (neg, S) = strip_sign S;
         (R, S) = (if take 2 S = ''0x'' \<or> take 2 S = ''0X'' then (16, drop 2 S) else (10, S));
         Z = takeWhile (is_radix_digit R) S
     in if Z = [] then NaN
        else if neg then - Fin (real (digits_value R Z)) else Fin (real (digits_value R Z)))"

definition exponent_part :: "string \<Rightarrow> int" where
  "exponent_part s =
    (case s of
       c # r \<Rightarrow>
        if c = CHR ''e'' \<or> c = CHR ''E'' then
          (let (neg, r') = strip_sign r; ds = takeWhile is_digit r' in
           if ds = [] then 0
           else if neg then - int (digits_value 10 ds) else int (digits_value 10 ds))
        else 0
     | [] \<Rightarrow> 0)"

definition parseFloat :: "string \<Rightarrow> jsnum" where
  "parseFloat string =
    (let trimmed = dropWhile is_space string;
         (neg, S) = strip_sign trimmed
     in if take 8 S = ''Infinity'' then signed_inf neg
        else
          (let ints = takeWhile is_digit S;
               r1 = dropWhile is_digit S;
               (fracs, r2) =
                 (case r1 of
                    c # r \<Rightarrow>
                      if c = CHR ''.'' \<and> (ints \<noteq> [] \<or> takeWhile is_digit r \<noteq> [])
                      then (takeWhile is_digit r, dropWhile is_digit r)
                      else ([], r1)
                  | [] \<Rightarrow> ([], r1))
           in if ints = [] \<and> fracs = [] then NaN
              else
                (let m = real (digits_value 10 (ints @ fracs)) / 10 ^ length fracs;
                     ex = exponent_part r2;
                     v = (if 0 \<le> ex then m * 10 ^ nat ex else m / 10 ^ nat (- ex))
                 in Fin (if neg then - v else v))))"

text \<open>\<^verbatim>\<open>s.split(sep)\<close> for a separator of one character.\<close>

fun split :: "char \<Rightarrow> string \<Rightarrow> string list" where
  "split sep [] = [[]]"
| "split sep (c # cs) =
    (if c = sep then [] # split sep cs
     else (case split sep cs of p # ps \<Rightarrow> (c # p) # ps | [] \<Rightarrow> [[c]]))"

text \<open>The branch of \<^verbatim>\<open>_parsePrimary\<close> for a token of the group \<^verbatim>\<open>value\<close>.\<close>

definition primary_value :: "token \<Rightarrow> tree" where
  "primary_value token =
    (let val = String (tok_value token);
         units = tok_name token;
         val = (if units = Some Units_Measure \<or> units = Some Units_Duplet \<or>
                    units = Some Units_Triplet \<or> units = Some Units_Tick
                then Number (parseInt (tok_value token))
                else if units = Some Units_Seconds \<or> units = Some Units_Hertz
                then Number (parseInt (tok_value token))
                else if units = Some Units_TransportTime
                then Array (map (\<lambda>v. Number (parseFloat v)) (split CHR '':'' (tok_value token)))
                else val)
     in TimeNode (Tone_Time (Some val) units))"

text \<open>
  \<^verbatim>\<open>_parseExpression\<close>, its \<^verbatim>\<open>while\<close> loop, \<^verbatim>\<open>_parseUnary\<close> and
  \<^verbatim>\<open>_parsePrimary\<close>. Each takes the lexer and returns the node with the lexer after it,
  or the error thrown. \<^verbatim>\<open>Tone.Time.Type.Negate\<close> does not exist and the body of the
  test on it is empty, so \<^verbatim>\<open>_parseUnary\<close> has no branch for it.
\<close>

function parseExpression :: "token list \<Rightarrow> int option \<Rightarrow> error + tree \<times> token list"
  and parseExpression_while :: "tree \<Rightarrow> token list \<Rightarrow> int \<Rightarrow> error + tree \<times> token list"
  and parseUnary :: "token list \<Rightarrow> error + tree \<times> token list"
  and parsePrimary :: "token list \<Rightarrow> error + tree \<times> token list" where
  "parseExpression lexer prec =
    (let precedence = (case prec of None \<Rightarrow> 5 | Some p \<Rightarrow> p) in
     case (if precedence < 0 then parseUnary lexer
           else parseExpression lexer (Some (precedence - 1))) of
       Inl err \<Rightarrow> Inl err
     | Inr (expr, lexer') \<Rightarrow> parseExpression_while expr lexer' precedence)"
| "parseExpression_while expr lexer precedence =
    (case lexer of
       token # lexer' \<Rightarrow>
         if tok_group token = ''binary'' \<and> tok_precedence token = Some precedence then
           (case parseExpression lexer' (Some precedence) of
              Inl err \<Rightarrow> Inl err
            | Inr (right, lexer'') \<Rightarrow>
                parseExpression_while (BinaryNode (tok_name token) expr right) lexer'' precedence)
         else Inr (expr, lexer)
     | [] \<Rightarrow> Inr (expr, lexer))"
| "parseUnary lexer =
    (case lexer of
       token # lexer' \<Rightarrow>
         if tok_group token = ''unary'' then
           (case parseUnary lexer' of
              Inl err \<Rightarrow> Inl err
            | Inr (expr, lexer'') \<Rightarrow> Inr (UnaryNode (tok_value token) expr, lexer''))
         else parsePrimary lexer
     | [] \<Rightarrow> parsePrimary lexer)"
| "parsePrimary lexer =
    (case lexer of
       [] \<Rightarrow> Inl (SyntaxError ''Unexpected termination of expression'')
     | token # lexer' \<Rightarrow>
         if tok_group token = ''value'' then Inr (primary_value token, lexer')
         else if tok_group token = ''glue'' \<and> tok_value token = ''('' then
           (case parseExpression lexer' None of
              Inl err \<Rightarrow> Inl err
            | Inr (expr, lexer'') \<Rightarrow>
                (case lexer'' of
                   token' # lexer''' \<Rightarrow>
                     if tok_group token' = ''glue'' \<and> tok_value token' = '')''
                     then Inr (expr, lexer''') else Inl (SyntaxError ''Expected )'')
                 | [] \<Rightarrow> Inl (SyntaxError ''Expected )'')))
         else Inl (SyntaxError (''Parse error, cannot process token '' @ tok_value token)))"
  by pat_completeness auto

text \<open>The parser ends: no call returns a lexer longer than the one it took.\<close>

abbreviation parse_dom where
  "parse_dom \<equiv> parseExpression_parseExpression_while_parseUnary_parsePrimary_dom"


lemma parse_length_dom:
  "parse_dom (Inl (Inl (l1, prec))) \<Longrightarrow>
     (\<forall>t r. parseExpression l1 prec = Inr (t, r) \<longrightarrow> length r \<le> length l1)"
  "parse_dom (Inl (Inr (expr, l2, p))) \<Longrightarrow>
     (\<forall>t r. parseExpression_while expr l2 p = Inr (t, r) \<longrightarrow> length r \<le> length l2)"
  "parse_dom (Inr (Inl l3)) \<Longrightarrow>
     (\<forall>t r. parseUnary l3 = Inr (t, r) \<longrightarrow> length r \<le> length l3)"
  "parse_dom (Inr (Inr l4)) \<Longrightarrow>
     (\<forall>t r. parsePrimary l4 = Inr (t, r) \<longrightarrow> length r \<le> length l4)"
proof (induct l1 prec and expr l2 p and l3 and l4
    rule: parseExpression_parseExpression_while_parseUnary_parsePrimary.pinduct)
  case (1 lexer prec)
  show ?case
    apply (subst parseExpression.psimps[OF 1(1)])
    using 1(2-)
    apply (auto simp: Let_def split: if_splits sum.splits prod.splits)
    apply (meson order_trans)+
    done
next
  case (2 expr lexer precedence)
  show ?case
    apply (subst parseExpression_while.psimps[OF 2(1)])
    using 2(2-)
    apply (auto simp: Let_def split: if_splits sum.splits prod.splits list.splits)
    apply (meson order_trans le_SucI)+
    done
next
  case (3 lexer)
  show ?case
    apply (subst parseUnary.psimps[OF 3(1)])
    using 3(2-)
    apply (auto simp: Let_def split: if_splits sum.splits prod.splits list.splits)
    done
next
  case (4 lexer)
  show ?case
    apply (subst parsePrimary.psimps[OF 4(1)])
    using 4(2-)
    apply (auto simp: Let_def split: if_splits sum.splits prod.splits list.splits)
    done
qed

lemma parseExpression_length_dom:
  "parse_dom (Inl (Inl (l, p))) \<Longrightarrow> parseExpression l p = Inr (t, r) \<Longrightarrow> length r \<le> length l"
  using parse_length_dom(1) by blast

lemma parseUnary_length_dom:
  "parse_dom (Inr (Inl l)) \<Longrightarrow> parseUnary l = Inr (t, r) \<Longrightarrow> length r \<le> length l"
  using parse_length_dom(3) by blast

definition parse_measure ::
  "(token list \<times> int option + tree \<times> token list \<times> int) + token list + token list
    \<Rightarrow> nat \<times> nat" where
  "parse_measure x =
    (case x of
       Inl (Inl (lexer, prec)) \<Rightarrow>
         (length lexer, 3 + nat ((case prec of None \<Rightarrow> 5 | Some p \<Rightarrow> p) + 1))
     | Inl (Inr (expr, lexer, precedence)) \<Rightarrow> (length lexer, 0)
     | Inr (Inl lexer) \<Rightarrow> (length lexer, 2)
     | Inr (Inr lexer) \<Rightarrow> (length lexer, 1))"

termination parseExpression
proof (relation "inv_image (less_than <*lex*> less_than) parse_measure", goal_cases)
  case 1
  show ?case by (rule wf_inv_image) (rule wf_lex_prod; simp)
next
  case (2 lexer prec x)
  then show ?case by (simp add: parse_measure_def)
next
  case (3 lexer prec x)
  then show ?case by (simp add: parse_measure_def)
next
  case (4 lexer prec x b xa y)
  then show ?case
    by (auto simp add: parse_measure_def split: if_splits
          dest: parseExpression_length_dom parseUnary_length_dom)
next
  case 5
  then show ?case by (simp add: parse_measure_def)
next
  case 6
  then show ?case
    by (auto simp add: parse_measure_def dest: parseExpression_length_dom)
next
  case 7 then show ?case by (simp add: parse_measure_def)
next
  case 8 then show ?case by (simp add: parse_measure_def)
next
  case 9 then show ?case by (simp add: parse_measure_def)
next
  case 10 then show ?case by (simp add: parse_measure_def)
qed

declare parseExpression.simps [simp del] parseExpression_while.simps [simp del]
  parseUnary.simps [simp del] parsePrimary.simps [simp del]

section \<open>From the tree to a Time\<close>

text \<open>
  \<^verbatim>\<open>_traverseTree(left, right, exprType)\<close>. An argument is a node or \<^verbatim>\<open>undefined\<close>.
  \<open>node_args\<close> reads \<^verbatim>\<open>args[0]\<close>, \<^verbatim>\<open>args[1]\<close> and \<^verbatim>\<open>type\<close> of an argument: a TypeError
  on \<^verbatim>\<open>undefined\<close> and on a \<^verbatim>\<open>Tone.Time\<close>, which has no \<^verbatim>\<open>args\<close>. The first branch
  returns \<^verbatim>\<open>left\<close> after \<^verbatim>\<open>left._pushExpr(right, exprType)\<close>; the second branch has no
  \<^verbatim>\<open>return\<close>. The call updates \<^verbatim>\<open>left\<close> in place, inside the tree; the model returns
  the updated Time only, which is all that the function itself reads again.
\<close>

fun node_args :: "tree option \<Rightarrow> error + tree option \<times> tree option \<times> string option" where
  "node_args None = Inl TypeError"
| "node_args (Some (TimeNode t)) = Inl TypeError"
| "node_args (Some (BinaryNode ty a b)) = Inr (Some a, Some b, ty)"
| "node_args (Some (UnaryNode opr a)) = Inr (Some a, None, None)"

fun count_nodes :: "tree option \<Rightarrow> nat" where
  "count_nodes None = 0"
| "count_nodes (Some (TimeNode t)) = 0"
| "count_nodes (Some (BinaryNode ty a b)) = 1 + count_nodes (Some a) + count_nodes (Some b)"
| "count_nodes (Some (UnaryNode opr a)) = 1 + count_nodes (Some a)"

lemma count_nodes_args:
  "node_args n = Inr (a, b, ty) \<Longrightarrow> count_nodes a + count_nodes b < count_nodes n"
  by (induction n rule: node_args.induct) auto

lemma count_nodes_Time [simp]: "count_nodes (map_option TimeNode t) = 0"
  by (cases t) auto

function traverseTree :: "tree option \<Rightarrow> tree option \<Rightarrow> string option \<Rightarrow> error + time option" where
  "traverseTree left right exprType =
    (case (left, right) of
       (Some (TimeNode l), Some (TimeNode r)) \<Rightarrow> Inr (Some (pushExpr l (Inl r) exprType None))
     | _ \<Rightarrow>
        (case node_args left of
           Inl err \<Rightarrow> Inl err
         | Inr (l0, l1, ltype) \<Rightarrow>
            (case traverseTree l0 l1 ltype of
               Inl err \<Rightarrow> Inl err
             | Inr left' \<Rightarrow>
                (case node_args right of
                   Inl err \<Rightarrow> Inl err
                 | Inr (r0, r1, rtype) \<Rightarrow>
                    (case traverseTree r0 r1 rtype of
                       Inl err \<Rightarrow> Inl err
                     | Inr right' \<Rightarrow>
                        (case traverseTree (map_option TimeNode left') (map_option TimeNode right') None of
                           Inl err \<Rightarrow> Inl err
                         | Inr res \<Rightarrow> Inr None))))))"
  by pat_completeness auto
termination
  by (relation "measure (\<lambda>(left, right, exprType). count_nodes left + count_nodes right)")
     (auto dest: count_nodes_args)

declare traverseTree.simps [simp del]

text \<open>
  \<^verbatim>\<open>_parseTree\<close>. \<open>parseTree_tree\<close> is its first two statements: the value of its
  variable \<^verbatim>\<open>tree\<close>, with the lexer as \<^verbatim>\<open>_parseExpression\<close> leaves it. Then it calls
  \<^verbatim>\<open>_traverseTree(tree)\<close>, with one argument, and returns the tree.
\<close>

definition parseTree_tree :: "string \<Rightarrow> error + tree \<times> token list" where
  "parseTree_tree exprString =
    (case tokenize exprString of
       Inl err \<Rightarrow> Inl err
     | Inr lexer \<Rightarrow> parseExpression lexer None)"

definition parseTree :: "string \<Rightarrow> error + tree" where
  "parseTree exprString =
    (case parseTree_tree exprString of
       Inl err \<Rightarrow> Inl err
     | Inr (tree, lexer) \<Rightarrow>
        (case traverseTree (Some tree) None None of
           Inl err \<Rightarrow> Inl err
         | Inr res \<Rightarrow> Inr tree))"

section \<open>Environments of the examples\<close>

text \<open>
  The tempo context of the specification's examples: 120 beats per minute, time signature
  4, 192 pulses per quarter note. The closed examples below are evaluated in
  \<open>env120\<close>, or in \<open>env_no_transport\<close> where \<^verbatim>\<open>Tone.Transport\<close> is absent; their clock
  reads 10, and their two conversions are constant functions, which none of the examples
  reaches.
\<close>

definition transport120 :: transport where
  "transport120 = \<lparr>bpm_value = Fin 120, PPQ = Fin 192, timeSignatureOf = Fin 4\<rparr>"

definition env120 :: env where
  "env120 = \<lparr>Transport = Some transport120, clock = Fin 10,
              numToString = (\<lambda>n. []), strToNum = (\<lambda>s. NaN)\<rparr>"

definition env_no_transport :: env where
  "env_no_transport = \<lparr>Transport = None, clock = Fin 10,
              numToString = (\<lambda>n. []), strToNum = (\<lambda>s. NaN)\<rparr>"

section \<open>The specification's reading of an evaluation\<close>

text \<open>
  The specification's reading of the loop of \<^verbatim>\<open>eval\<close>, in its own words: the
  operators are a closed set; Add, Subtract, Multiply and Divide apply their arithmetic to
  the running value and the operand's own evaluation, to which no reference time is passed;
  Quantize divides the running value by the operand's evaluation; RelativeToNow adds the
  reference time when it is supplied, and the reading of the clock when it is not. The
  operations are folded from the left, in the order of the list.
\<close>

datatype operator = Add | Subtract | Multiply | Divide | Quantize | RelativeToNow





section \<open>Evaluation\<close>

subsection \<open>The chained operations as a left fold\<close>







subsection \<open>The constructor\<close>

text \<open>
  C2. The constructor stores \<^verbatim>\<open>val\<close> as it is, the Now sentinel when \<^verbatim>\<open>val\<close> is
  undefined, with no chained operation; its result does not depend on any tokenizing or
  parsing of \<^verbatim>\<open>val\<close>, so a string stays the string. When \<^verbatim>\<open>units\<close> is none of the
  seven unit tags, the value evaluates to 0.
\<close>

theorem C2_constructor_stores_val:
  "Tone_Time (Some v) units = Time [] units v \<and>
   Tone_Time None units = Time [] units (String Type_Now) \<and>
   (units \<notin> Some ` {Units_Seconds, Units_Measure, Units_Duplet, Units_Triplet, Units_Tick,
                      Units_Hertz, Units_TransportTime}
    \<longrightarrow> eval e now (Tone_Time val units) = Number (Fin 0))"
  by (auto simp: Tone_Time_def defaultArg_def evalValue_def)

theorem C2_constructor_stores_val_witness:
  "Tone_Time (Some (String ''4n+1m'')) None = Time [] None (String ''4n+1m'') \<and>
   Tone_Time None None = Time [] None (String Type_Now) \<and>
   eval env120 None (Tone_Time (Some (String ''4n+1m'')) None) = Number (Fin 0)"
proof -
  have h: "(None :: string option) \<notin> Some ` {Units_Seconds, Units_Measure, Units_Duplet,
      Units_Triplet, Units_Tick, Units_Hertz, Units_TransportTime}"
    by simp
  show ?thesis
    using h C2_constructor_stores_val [of "String ''4n+1m''" None env120 None "Some (String ''4n+1m'')"]
    by blast
qed

subsection \<open>Without a transport\<close>

lemma no_transport_units:
  assumes "Transport e = None"
  shows "beatInSeconds e = Fin 0" and "tickInSeconds e = Fin 0" and "timeSignature e = Fin 0"
  using assms by (simp_all add: beatInSeconds_def tickInSeconds_def timeSignature_def)

text \<open>Without a transport a duplet, a triplet and a tick count evaluate to 0 and a number
  of seconds to itself.\<close>

lemma no_transport_zero:
  assumes "Transport e = None"
  shows "eval e now (Tone_Time (Some (Number (Fin n))) (Some Units_Duplet)) = Number (Fin 0)"
    and "eval e now (Tone_Time (Some (Number (Fin n))) (Some Units_Triplet)) = Number (Fin 0)"
    and "eval e now (Tone_Time (Some (Number (Fin n))) (Some Units_Tick)) = Number (Fin 0)"
    and "eval e now (Tone_Time (Some (Number (Fin n))) (Some Units_Seconds)) = Number (Fin n)"
  using no_transport_units [OF assms]
  by (simp_all add: Tone_Time_def defaultArg_def evalValue_def)

text \<open>
  C5. Without a transport the measure \<^verbatim>\<open>"1m"\<close> does not evaluate to 0: the Measure
  case multiplies by \<^verbatim>\<open>beatTime\<close>, which is undefined there, and the result is NaN.
  In every environment and for every magnitude the base value of a measure is NaN.
\<close>

theorem C5_measure_is_NaN:
  "parseTree_tree ''1m'' = Inr (TimeNode (Time [] (Some Units_Measure) (Number (Fin 1))), []) \<and>
   eval env_no_transport None (Time [] (Some Units_Measure) (Number (Fin 1))) = Number NaN \<and>
   eval e now (Time exprs (Some Units_Measure) v) = eval_loop e now (Number NaN) exprs"
proof (intro conjI)
  show "parseTree_tree ''1m'' = Inr (TimeNode (Time [] (Some Units_Measure) (Number (Fin 1))), [])"
    by code_simp
  have nan: "x * NaN * y = NaN" for x y :: jsnum
    by (cases x; cases y) simp_all
  show "eval e now (Time exprs (Some Units_Measure) v) = eval_loop e now (Number NaN) exprs"
    by (simp add: evalValue_def nan)
  show "eval env_no_transport None (Time [] (Some Units_Measure) (Number (Fin 1))) = Number NaN"
    by (simp add: evalValue_def nan)
qed

subsection \<open>Division by zero\<close>






subsection \<open>What an evaluation depends on\<close>














section \<open>Properties of the tokenizer\<close>

lemma getNextToken_groups_error:
  "getNextToken_groups expr groups = Inl err \<Longrightarrow> err = SyntaxError (''Unexpected token '' @ expr)"
  by (induction expr groups rule: getNextToken_groups.induct) (auto split: option.splits)

lemma getNextToken_error:
  "getNextToken expr = Inl err \<Longrightarrow> err = SyntaxError (''Unexpected token '' @ expr)"
  unfolding getNextToken_def by (rule getNextToken_groups_error)

lemma trim_decomp: "\<exists>a b. s = a @ trim s @ b"
proof -
  let ?d = "dropWhile is_space s"
  have "rev ?d = takeWhile is_space (rev ?d) @ dropWhile is_space (rev ?d)" by simp
  then have "?d = rev (dropWhile is_space (rev ?d)) @ rev (takeWhile is_space (rev ?d))"
    by (metis rev_append rev_rev_ident)
  then have "s = takeWhile is_space s @ trim s @ rev (takeWhile is_space (rev ?d))"
    unfolding trim_def by (metis takeWhile_dropWhile_id)
  then show ?thesis by blast
qed

lemma tokenize_loop_error:
  "tokenize_loop expr tokens = Inl err \<Longrightarrow>
     \<exists>pre r post. expr = pre @ r @ post \<and> getNextToken r = Inl err"
proof (induction expr tokens rule: tokenize_loop.induct)
  case (1 expr tokens)
  have ne: "0 < length expr"
  proof (rule ccontr)
    assume "\<not> 0 < length expr"
    then have "expr = []" by simp
    with "1.prems" show False by (simp add: tokenize_loop_unfold(1))
  qed
  then have ne': "expr \<noteq> []" by auto
  obtain a b where ab: "expr = a @ trim expr @ b" using trim_decomp by blast
  show ?case
  proof (cases "getNextToken (trim expr)")
    case (Inl err')
    with "1.prems" ne' have "err' = err" by (simp add: tokenize_loop_unfold(2))
    with Inl ab show ?thesis by blast
  next
    case (Inr token)
    let ?k = "length (tok_value token)"
    from "1.prems" ne' Inr
    have "tokenize_loop (drop ?k (trim expr)) (tokens @ [token]) = Inl err"
      by (simp add: tokenize_loop_unfold(3))
    with "1.IH" [OF ne refl Inr]
    obtain pre r post where r: "drop ?k (trim expr) = pre @ r @ post" "getNextToken r = Inl err"
      by blast
    have "trim expr = take ?k (trim expr) @ pre @ r @ post"
      using r(1) by (metis append_take_drop_id)
    with ab have "expr = (a @ take ?k (trim expr) @ pre) @ r @ (post @ b)"
      by (metis append.assoc)
    with r(2) show ?thesis by blast
  qed
qed

text \<open>
  C6, as the claim states it, fails on its example: the pattern \<^verbatim>\<open>/^\d/\<close> of a number
  of seconds matches the \<^verbatim>\<open>4\<close> of \<^verbatim>\<open>"4x"\<close>, and the error names what is left,
  \<^verbatim>\<open>x\<close>.
\<close>

theorem C6_counterexample:
  "tokenize ''4x'' = Inl (SyntaxError ''Unexpected token x'') \<and>
   tokenize ''4x'' \<noteq> Inl (SyntaxError ''Unexpected token 4x'')"
  by code_simp

text \<open>
  C6, amended. When no pattern matches the remainder \<open>r\<close>, \<^verbatim>\<open>getNextToken\<close> throws
  the SyntaxError whose message is \<^verbatim>\<open>Unexpected token\<close> followed by \<open>r\<close>; the loop of
  the tokenizer then ends with that error, whatever tokens it has pushed; and an error of
  the tokenizer is such an error for a part \<open>r\<close> of the input. On \<^verbatim>\<open>"4x"\<close> the part
  is \<^verbatim>\<open>x\<close>.
\<close>

theorem C6_syntax_error_names_remainder:
  "(getNextToken r = Inl err \<longrightarrow> err = SyntaxError (''Unexpected token '' @ r)) \<and>
   (expr \<noteq> [] \<and> getNextToken (trim expr) = Inl err \<longrightarrow> tokenize_loop expr tokens = Inl err) \<and>
   (tokenize s = Inl err \<longrightarrow>
      (\<exists>pre r post. s = pre @ r @ post \<and> getNextToken r = Inl err \<and>
         err = SyntaxError (''Unexpected token '' @ r)))"
proof (intro conjI impI)
  assume "getNextToken r = Inl err"
  then show "err = SyntaxError (''Unexpected token '' @ r)" by (rule getNextToken_error)
next
  assume "expr \<noteq> [] \<and> getNextToken (trim expr) = Inl err"
  then show "tokenize_loop expr tokens = Inl err" by (simp add: tokenize_loop_unfold(2))
next
  assume "tokenize s = Inl err"
  then obtain pre r post where "s = pre @ r @ post" "getNextToken r = Inl err"
    unfolding tokenize_def using tokenize_loop_error by blast
  then show "\<exists>pre r post. s = pre @ r @ post \<and> getNextToken r = Inl err \<and>
         err = SyntaxError (''Unexpected token '' @ r)"
    using getNextToken_error by blast
qed

theorem C6_syntax_error_names_remainder_witness:
  "getNextToken ''x'' = Inl (SyntaxError ''Unexpected token x'') \<and>
   tokenize_loop ''x'' [\<lparr>tok_group = ''value'', tok_name = Some Units_Seconds,
                         tok_precedence = None, tok_value = ''4''\<rparr>]
     = Inl (SyntaxError ''Unexpected token x'') \<and>
   tokenize ''4x'' = Inl (SyntaxError ''Unexpected token x'') \<and>
   (\<exists>pre r post. ''4x'' = pre @ r @ post \<and>
      getNextToken r = Inl (SyntaxError ''Unexpected token x'') \<and>
      SyntaxError ''Unexpected token x'' = SyntaxError (''Unexpected token '' @ r))"
proof -
  have a: "getNextToken ''x'' = Inl (SyntaxError ''Unexpected token x'')" by code_simp
  have b: "''x'' \<noteq> [] \<and> getNextToken (trim ''x'') = Inl (SyntaxError ''Unexpected token x'')"
    by code_simp
  have c: "tokenize ''4x'' = Inl (SyntaxError ''Unexpected token x'')" by code_simp
  show ?thesis
    using a b c
      C6_syntax_error_names_remainder [of "''x''" "SyntaxError ''Unexpected token x''" "''x''"
        "[\<lparr>tok_group = ''value'', tok_name = Some Units_Seconds,
           tok_precedence = None, tok_value = ''4''\<rparr>]" "''4x''"]
    by blast
qed

subsection \<open>The entry of the division\<close>

lemma getNextToken_not_Divide: "getNextToken expr = Inr t \<Longrightarrow> tok_name t \<noteq> Some Type_Divide"
  unfolding getNextToken_def Expressions_def
  by (auto simp del: re_match.simps split: option.splits)

lemma tokenize_loop_invariant:
  assumes "tokenize_loop expr tokens = Inr res"
    and "\<forall>t \<in> set tokens. P t"
    and "\<And>x t. getNextToken x = Inr t \<Longrightarrow> P t"
  shows "\<forall>t \<in> set res. P t"
  using assms(1,2)
proof (induction expr tokens rule: tokenize_loop.induct)
  case (1 expr tokens)
  show ?case
  proof (cases "0 < length expr")
    case False
    with "1.prems" show ?thesis by (simp add: tokenize_loop_unfold(1))
  next
    case True
    then have ne: "expr \<noteq> []" by auto
    show ?thesis
    proof (cases "getNextToken (trim expr)")
      case (Inl err)
      with "1.prems" ne show ?thesis by (simp add: tokenize_loop_unfold(2))
    next
      case (Inr token)
      have "tokenize_loop (drop (length (tok_value token)) (trim expr)) (tokens @ [token]) = Inr res"
        using "1.prems"(1) ne Inr by (simp add: tokenize_loop_unfold(3))
      moreover have "\<forall>t \<in> set (tokens @ [token]). P t"
        using "1.prems"(2) assms(3) [OF Inr] by simp
      ultimately show ?thesis using "1.IH" [OF True refl Inr] by blast
    qed
  qed
qed

text \<open>
  C8. No token of a tokenized string has the name of the division: the entry \<^verbatim>\<open>"/"\<close>
  has the regular expression of the entry \<^verbatim>\<open>"*"\<close>, which stands before it. A
  \<^verbatim>\<open>*\<close> at the start of the remainder gives the token of the multiplication, and at a
  \<^verbatim>\<open>/\<close> no pattern matches.
\<close>

theorem C8_divide_never_tokenized:
  "(tokenize s = Inr tokens \<longrightarrow> (\<forall>t \<in> set tokens. tok_name t \<noteq> Some Type_Divide)) \<and>
   getNextToken (CHR ''*'' # rest) =
     Inr \<lparr>tok_group = ''binary'', tok_name = Some Type_Multiply,
          tok_precedence = Some 0, tok_value = ''*''\<rparr> \<and>
   getNextToken (CHR ''/'' # rest) = Inl (SyntaxError (''Unexpected token '' @ CHR ''/'' # rest))"
proof (intro conjI impI)
  assume "tokenize s = Inr tokens"
  then show "\<forall>t \<in> set tokens. tok_name t \<noteq> Some Type_Divide"
    unfolding tokenize_def
    by (rule tokenize_loop_invariant) (simp_all add: getNextToken_not_Divide)
next
  show "getNextToken (CHR ''*'' # rest) =
     Inr \<lparr>tok_group = ''binary'', tok_name = Some Type_Multiply,
          tok_precedence = Some 0, tok_value = ''*''\<rparr>"
    by (simp add: getNextToken_def Expressions_def is_digit_def num_len_def comp_len_def)
next
  show "getNextToken (CHR ''/'' # rest) = Inl (SyntaxError (''Unexpected token '' @ CHR ''/'' # rest))"
    by (simp add: getNextToken_def Expressions_def is_digit_def num_len_def comp_len_def)
qed

theorem C8_divide_never_tokenized_witness:
  "tokenize ''4n*2n'' =
     Inr [\<lparr>tok_group = ''value'', tok_name = Some Units_Duplet,
            tok_precedence = None, tok_value = ''4n''\<rparr>,
          \<lparr>tok_group = ''binary'', tok_name = Some Type_Multiply,
            tok_precedence = Some 0, tok_value = ''*''\<rparr>,
          \<lparr>tok_group = ''value'', tok_name = Some Units_Duplet,
            tok_precedence = None, tok_value = ''2n''\<rparr>] \<and>
   list_all (\<lambda>t. tok_name t \<noteq> Some Type_Divide)
     [\<lparr>tok_group = ''value'', tok_name = Some Units_Duplet,
            tok_precedence = None, tok_value = ''4n''\<rparr>,
          \<lparr>tok_group = ''binary'', tok_name = Some Type_Multiply,
            tok_precedence = Some 0, tok_value = ''*''\<rparr>,
          \<lparr>tok_group = ''value'', tok_name = Some Units_Duplet,
            tok_precedence = None, tok_value = ''2n''\<rparr>] \<and>
   getNextToken ''*2n'' =
     Inr \<lparr>tok_group = ''binary'', tok_name = Some Type_Multiply,
          tok_precedence = Some 0, tok_value = ''*''\<rparr> \<and>
   getNextToken ''/2n'' = Inl (SyntaxError ''Unexpected token /2n'')"
proof -
  have a: "tokenize ''4n*2n'' =
     Inr [\<lparr>tok_group = ''value'', tok_name = Some Units_Duplet,
            tok_precedence = None, tok_value = ''4n''\<rparr>,
          \<lparr>tok_group = ''binary'', tok_name = Some Type_Multiply,
            tok_precedence = Some 0, tok_value = ''*''\<rparr>,
          \<lparr>tok_group = ''value'', tok_name = Some Units_Duplet,
            tok_precedence = None, tok_value = ''2n''\<rparr>]"
    by code_simp
  show ?thesis
    using a C8_divide_never_tokenized [of "''4n*2n''" _ "''2n''"]
    by (simp add: list_all_iff)
qed

section \<open>Properties of the parser\<close>

subsection \<open>Associativity and precedence\<close>

text \<open>A token of the group \<^verbatim>\<open>value\<close> is parsed on its own at every tier.\<close>

lemma parsePrimary_value:
  "tok_group token = ''value'' \<Longrightarrow> parsePrimary (token # rest) = Inr (primary_value token, rest)"
  by (simp add: parsePrimary.simps)

lemma parseUnary_value:
  "tok_group token = ''value'' \<Longrightarrow> parseUnary (token # rest) = Inr (primary_value token, rest)"
  by (simp add: parseUnary.simps parsePrimary_value)

lemma parseExpression_single:
  "tok_group token = ''value'' \<Longrightarrow>
   parseExpression [token] (Some p) = Inr (primary_value token, [])"
proof (induction "nat (p + 1)" arbitrary: p)
  case 0
  then have "p < 0" by simp
  with "0.prems" show ?case
    by (simp add: parseExpression.simps [of _ "Some p"] parseUnary_value
          parseExpression_while.simps [of _ "[]"])
next
  case (Suc n)
  then have "\<not> p < 0" and "n = nat (p - 1 + 1)" by simp_all
  with Suc.hyps(1) [of "p - 1"] Suc.prems show ?case
    by (simp add: parseExpression.simps [of _ "Some p"] parseExpression_while.simps [of _ "[]"])
qed

text \<open>
  Five tokens \<^verbatim>\<open>a op1 b op2 c\<close> with both operators in one tier: below the tier a value
  is parsed alone, at the tier the right operand takes the rest, and above it nothing is
  left to read. The tree nests to the right.
\<close>

lemma parseExpression_while_other:
  assumes "rest = [] \<or> tok_precedence (hd rest) \<noteq> Some q"
  shows "parseExpression_while expr rest q = Inr (expr, rest)"
  using assms by (cases rest) (simp_all add: parseExpression_while.simps [of expr _ q])

lemma parseExpression_value_below:
  assumes "tok_group a = ''value''" and "rest = [] \<or> tok_precedence (hd rest) = Some p"
    and "q < p"
  shows "parseExpression (a # rest) (Some q) = Inr (primary_value a, rest)"
  using assms(3)
proof (induction "nat (q + 1)" arbitrary: q)
  case 0
  then have "q < 0" by simp
  moreover have "rest = [] \<or> tok_precedence (hd rest) \<noteq> Some q" using assms(2) "0.prems" by auto
  ultimately show ?case
    using assms(1)
    by (simp add: parseExpression.simps [of _ "Some q"] parseUnary_value
          parseExpression_while_other)
next
  case (Suc n)
  then have "\<not> q < 0" and "n = nat (q - 1 + 1)" and "q - 1 < p" by simp_all
  moreover have "rest = [] \<or> tok_precedence (hd rest) \<noteq> Some q" using assms(2) Suc.prems by auto
  ultimately show ?case
    using Suc.hyps(1) [of "q - 1"]
    by (simp add: parseExpression.simps [of _ "Some q"] parseExpression_while_other)
qed

lemma parseExpression_above:
  assumes "parseExpression lexer (Some p) = Inr (tree, [])" and "0 \<le> p" and "p \<le> q"
  shows "parseExpression lexer (Some q) = Inr (tree, [])"
  using assms(3)
proof (induction "nat (q - p)" arbitrary: q)
  case 0
  then have "q = p" by simp
  with assms(1) show ?case by simp
next
  case (Suc n)
  then have "n = nat (q - 1 - p)" and "p \<le> q - 1" by auto
  then have "parseExpression lexer (Some (q - 1)) = Inr (tree, [])"
    using Suc.hyps(1) [of "q - 1"] by simp
  moreover have "\<not> q < 0" using assms(2) Suc.prems by simp
  ultimately show ?case
    by (simp add: parseExpression.simps [of _ "Some q"] parseExpression_while_other)
qed

lemma parseExpression_None: "parseExpression lexer None = parseExpression lexer (Some 5)"
  by (simp add: parseExpression.simps [of _ None] parseExpression.simps [of _ "Some 5"])

lemma parseExpression_same_tier:
  assumes "tok_group a = ''value''" "tok_group b = ''value''" "tok_group c = ''value''"
    and "tok_group op1 = ''binary''" "tok_group op2 = ''binary''"
    and "tok_precedence op1 = Some p" "tok_precedence op2 = Some p" and "0 \<le> p" "p \<le> 5"
  shows "parseExpression [a, op1, b, op2, c] None =
    Inr (BinaryNode (tok_name op1) (primary_value a)
           (BinaryNode (tok_name op2) (primary_value b) (primary_value c)), [])"
proof -
  have c: "parseExpression [c] (Some p) = Inr (primary_value c, [])"
    using assms(3) by (rule parseExpression_single)
  have b': "parseExpression [b, op2, c] (Some (p - 1)) = Inr (primary_value b, [op2, c])"
    using assms(2,7) by (intro parseExpression_value_below [where p = p]) simp_all
  have b: "parseExpression [b, op2, c] (Some p) =
      Inr (BinaryNode (tok_name op2) (primary_value b) (primary_value c), [])"
    using assms(5,7,8) b' c
    by (simp add: parseExpression.simps [of "[b, op2, c]" "Some p"]
          parseExpression_while.simps [of _ "[op2, c]"] parseExpression_while.simps [of _ "[]"])
  have a': "parseExpression [a, op1, b, op2, c] (Some (p - 1)) =
      Inr (primary_value a, [op1, b, op2, c])"
    using assms(1,6) by (intro parseExpression_value_below [where p = p]) simp_all
  have a: "parseExpression [a, op1, b, op2, c] (Some p) =
      Inr (BinaryNode (tok_name op1) (primary_value a)
           (BinaryNode (tok_name op2) (primary_value b) (primary_value c)), [])"
    using assms(4,6,8) a' b
    by (simp add: parseExpression.simps [of "[a, op1, b, op2, c]" "Some p"]
          parseExpression_while.simps [of _ "[op1, b, op2, c]"]
          parseExpression_while.simps [of _ "[]"])
  show ?thesis
    unfolding parseExpression_None using a assms(8,9) by (rule parseExpression_above)
qed

text \<open>
  C4. In the loop of \<^verbatim>\<open>_parseExpression\<close> the right operand is parsed by
  \<^verbatim>\<open>this._parseExpression(lexer, precedence)\<close>, at the tier of the operator itself, so
  the call takes every further operator of the tier (\<open>parseExpression_same_tier\<close>):
  \<^verbatim>\<open>"1n-2n-3n"\<close> becomes \<^verbatim>\<open>1n - (2n - 3n)\<close>, not \<^verbatim>\<open>(1n - 2n) - 3n\<close>. The tiers
  themselves are as the claim says: in \<^verbatim>\<open>"1m+2n*3n"\<close> the product is the right child
  of the sum.
\<close>

theorem C4_same_tier_nests_to_the_right:
  "parseTree_tree ''1n-2n-3n'' =
     Inr (BinaryNode (Some Type_Subtract)
            (TimeNode (Time [] (Some Units_Duplet) (Number (Fin 1))))
            (BinaryNode (Some Type_Subtract)
               (TimeNode (Time [] (Some Units_Duplet) (Number (Fin 2))))
               (TimeNode (Time [] (Some Units_Duplet) (Number (Fin 3))))), []) \<and>
   parseTree_tree ''1m+2n*3n'' =
     Inr (BinaryNode (Some Type_Add)
            (TimeNode (Time [] (Some Units_Measure) (Number (Fin 1))))
            (BinaryNode (Some Type_Multiply)
               (TimeNode (Time [] (Some Units_Duplet) (Number (Fin 2))))
               (TimeNode (Time [] (Some Units_Duplet) (Number (Fin 3))))), [])"
  by code_simp

subsection \<open>A leading minus\<close>

lemma parsePrimary_binary:
  "tok_group token = ''binary'' \<Longrightarrow>
   parsePrimary (token # rest) =
     Inl (SyntaxError (''Parse error, cannot process token '' @ tok_value token))"
  by (simp add: parsePrimary.simps)

lemma parseUnary_binary:
  "tok_group token = ''binary'' \<Longrightarrow>
   parseUnary (token # rest) =
     Inl (SyntaxError (''Parse error, cannot process token '' @ tok_value token))"
  by (simp add: parseUnary.simps parsePrimary_binary)

lemma parseExpression_binary:
  "tok_group token = ''binary'' \<Longrightarrow>
   parseExpression (token # rest) (Some p) =
     Inl (SyntaxError (''Parse error, cannot process token '' @ tok_value token))"
proof (induction "nat (p + 1)" arbitrary: p)
  case 0
  then have "p < 0" by simp
  with "0.prems" show ?case by (simp add: parseExpression.simps [of _ "Some p"] parseUnary_binary)
next
  case (Suc n)
  then have "\<not> p < 0" and "n = nat (p - 1 + 1)" by simp_all
  with Suc.hyps(1) [of "p - 1"] Suc.prems show ?case
    by (simp add: parseExpression.simps [of _ "Some p"])
qed

lemma parseExpression_binary_None:
  "tok_group token = ''binary'' \<Longrightarrow>
   parseExpression (token # rest) None =
     Inl (SyntaxError (''Parse error, cannot process token '' @ tok_value token))"
  by (simp add: parseExpression.simps [of _ None] parseExpression_binary)

lemma tokenize_loop_prefix:
  "tokenize_loop expr tokens = Inr res \<Longrightarrow> \<exists>more. res = tokens @ more"
proof (induction expr tokens rule: tokenize_loop.induct)
  case (1 expr tokens)
  show ?case
  proof (cases "expr = []")
    case True
    with "1.prems" show ?thesis by (simp add: tokenize_loop_unfold(1))
  next
    case False
    then have pos: "0 < length expr" by simp
    show ?thesis
    proof (cases "getNextToken (trim expr)")
      case (Inl err)
      with "1.prems" False show ?thesis by (simp add: tokenize_loop_unfold(2))
    next
      case (Inr token)
      with "1.prems" False
      have "tokenize_loop (drop (length (tok_value token)) (trim expr)) (tokens @ [token]) = Inr res"
        by (simp add: tokenize_loop_unfold(3))
      with "1.IH" [OF pos refl Inr] obtain more where "res = (tokens @ [token]) @ more" by blast
      then show ?thesis by simp
    qed
  qed
qed

lemma getNextToken_minus:
  "getNextToken (CHR ''-'' # rest) =
     Inr \<lparr>tok_group = ''binary'', tok_name = Some Type_Subtract,
          tok_precedence = Some 1, tok_value = ''-''\<rparr>"
  by (simp add: getNextToken_def Expressions_def is_digit_def num_len_def comp_len_def)

lemma trim_minus: "\<exists>rest. trim (CHR ''-'' # s) = CHR ''-'' # rest"
proof -
  have ns: "\<not> is_space CHR ''-''" by (simp add: is_space_def)
  obtain zs where zs: "dropWhile is_space (rev s @ ''-'') = zs @ ''-''"
  proof (cases "\<forall>x \<in> set (rev s). is_space x")
    case True
    then have "dropWhile is_space (rev s @ ''-'') = [] @ ''-''"
      by (simp add: dropWhile_append ns)
    then show ?thesis by (rule that)
  next
    case False
    then have "dropWhile is_space (rev s @ ''-'') = dropWhile is_space (rev s) @ ''-''"
      by (auto simp add: dropWhile_append)
    then show ?thesis by (rule that)
  qed
  have "trim (CHR ''-'' # s) = rev (dropWhile is_space (rev s @ ''-''))"
    by (simp add: trim_def ns)
  then show ?thesis by (simp add: zs)
qed

lemma parseTree_tree_minus: "\<exists>err. parseTree_tree (CHR ''-'' # s) = Inl err"
proof (cases "tokenize (CHR ''-'' # s)")
  case (Inl err)
  then show ?thesis by (simp add: parseTree_tree_def)
next
  case (Inr lexer)
  let ?minus = "\<lparr>tok_group = ''binary'', tok_name = Some Type_Subtract,
          tok_precedence = Some 1, tok_value = ''-''\<rparr>"
  obtain rest where rest: "trim (CHR ''-'' # s) = CHR ''-'' # rest" using trim_minus by blast
  have "tokenize_loop (CHR ''-'' # s) [] = tokenize_loop (drop 1 (trim (CHR ''-'' # s))) ([] @ [?minus])"
    using tokenize_loop_unfold(3) [of "CHR ''-'' # s" ?minus "[]"] rest getNextToken_minus [of rest]
    by simp
  with Inr obtain more where "lexer = ?minus # more"
    unfolding tokenize_def using tokenize_loop_prefix [of _ "[?minus]" lexer] by auto
  then show ?thesis
    using Inr by (simp add: parseTree_tree_def parseExpression_binary_None)
qed

text \<open>
  C7. A minus at the start of a string is the token of the binary subtraction, whose group
  is visited before the unary group, and \<^verbatim>\<open>_parsePrimary\<close> throws on it: \<^verbatim>\<open>"-4n"\<close>
  is a parse error, and so is a minus followed by any string.
\<close>

theorem C7_leading_minus_is_a_parse_error:
  "tokenize ''-4n'' =
     Inr [\<lparr>tok_group = ''binary'', tok_name = Some Type_Subtract,
            tok_precedence = Some 1, tok_value = ''-''\<rparr>,
          \<lparr>tok_group = ''value'', tok_name = Some Units_Duplet,
            tok_precedence = None, tok_value = ''4n''\<rparr>] \<and>
   parseTree_tree ''-4n'' = Inl (SyntaxError ''Parse error, cannot process token -'') \<and>
   parseTree ''-4n'' = Inl (SyntaxError ''Parse error, cannot process token -'') \<and>
   (\<exists>err. parseTree_tree (CHR ''-'' # s) = Inl err)"
proof (intro conjI)
  show "\<exists>err. parseTree_tree (CHR ''-'' # s) = Inl err" by (rule parseTree_tree_minus)
qed code_simp+

subsection \<open>The tree is not turned into a Time\<close>

lemma node_args_error: "node_args n = Inl err \<Longrightarrow> err = TypeError"
  by (induction n rule: node_args.induct) auto

lemma traverseTree_both_Time:
  "traverseTree (Some (TimeNode l)) (Some (TimeNode r)) exprType =
     Inr (Some (pushExpr l (Inl r) exprType None))"
  by (subst traverseTree.simps) simp

lemma traverseTree_else:
  assumes "\<not> (\<exists>l r. left = Some (TimeNode l) \<and> right = Some (TimeNode r))"
  shows "traverseTree left right exprType =
    (case node_args left of
       Inl err \<Rightarrow> Inl err
     | Inr (l0, l1, ltype) \<Rightarrow>
        (case traverseTree l0 l1 ltype of
           Inl err \<Rightarrow> Inl err
         | Inr left' \<Rightarrow>
            (case node_args right of
               Inl err \<Rightarrow> Inl err
             | Inr (r0, r1, rtype) \<Rightarrow>
                (case traverseTree r0 r1 rtype of
                   Inl err \<Rightarrow> Inl err
                 | Inr right' \<Rightarrow>
                    (case traverseTree (map_option TimeNode left') (map_option TimeNode right') None of
                       Inl err \<Rightarrow> Inl err
                     | Inr res \<Rightarrow> Inr None)))))"
  using assms by (subst traverseTree.simps) (auto split: option.splits tree.splits)

lemma traverseTree_error: "traverseTree left right exprType = Inl err \<Longrightarrow> err = TypeError"
proof (induction "count_nodes left + count_nodes right" arbitrary: left right exprType err
    rule: less_induct)
  case less
  show ?case
  proof (cases "\<exists>l r. left = Some (TimeNode l) \<and> right = Some (TimeNode r)")
    case True
    with less.prems show ?thesis by (auto simp: traverseTree_both_Time)
  next
    case False
    note unfold = traverseTree_else [OF False, of exprType]
    show ?thesis
    proof (cases "node_args left")
      case (Inl e)
      with less.prems unfold show ?thesis by (simp add: node_args_error)
    next
      case (Inr largs)
      obtain l0 l1 ltype where largs: "largs = (l0, l1, ltype)" by (cases largs)
      have lsmall: "count_nodes l0 + count_nodes l1 < count_nodes left"
        using Inr largs by (simp add: count_nodes_args)
      show ?thesis
      proof (cases "traverseTree l0 l1 ltype")
        case (Inl e)
        then have "e = TypeError" using less.hyps [of l0 l1 ltype e] lsmall by simp
        with less.prems unfold Inr largs Inl show ?thesis by simp
      next
        case left': (Inr left')
        show ?thesis
        proof (cases "node_args right")
          case (Inl e)
          with less.prems unfold Inr largs left' show ?thesis by (simp add: node_args_error)
        next
          case rargs: (Inr rargs)
          obtain r0 r1 rtype where r: "rargs = (r0, r1, rtype)" by (cases rargs)
          have rsmall: "count_nodes r0 + count_nodes r1 < count_nodes right"
            using rargs r by (simp add: count_nodes_args)
          show ?thesis
          proof (cases "traverseTree r0 r1 rtype")
            case (Inl e)
            then have "e = TypeError" using less.hyps [of r0 r1 rtype e] rsmall by simp
            with less.prems unfold Inr largs left' rargs r Inl show ?thesis by simp
          next
            case right': (Inr right')
            show ?thesis
            proof (cases "traverseTree (map_option TimeNode left') (map_option TimeNode right') None")
              case (Inl e)
              then have "e = TypeError"
                using less.hyps [of "map_option TimeNode left'" "map_option TimeNode right'" None e]
                  lsmall by simp
              with less.prems unfold Inr largs left' rargs r right' Inl show ?thesis by simp
            next
              case (Inr res)
              with less.prems unfold \<open>node_args left = Inr largs\<close> largs left' rargs r right'
              show ?thesis by simp
            qed
          qed
        qed
      qed
    qed
  qed
qed

text \<open>\<^verbatim>\<open>_traverseTree(tree)\<close>, as \<^verbatim>\<open>_parseTree\<close> calls it, throws a TypeError for every
  tree: at once for a Time, and at \<^verbatim>\<open>right.args\<close> for an operator node. So
  \<^verbatim>\<open>_parseTree\<close> returns for no string.\<close>

lemma traverseTree_tree_only: "traverseTree (Some tree) None None = Inl TypeError"
proof -
  have "traverseTree (Some tree) None None =
    (case node_args (Some tree) of
       Inl err \<Rightarrow> Inl err
     | Inr (l0, l1, ltype) \<Rightarrow>
        (case traverseTree l0 l1 ltype of
           Inl err \<Rightarrow> Inl err
         | Inr left' \<Rightarrow> Inl TypeError))"
    by (subst traverseTree_else) (auto split: sum.splits)
  then show ?thesis
    by (auto split: sum.splits prod.splits dest: node_args_error traverseTree_error)
qed

lemma parseTree_never_returns: "\<exists>err. parseTree exprString = Inl err"
  by (simp add: parseTree_def traverseTree_tree_only split: sum.splits prod.splits)

section \<open>Literals, from the string to the seconds\<close>

subsection \<open>Strings of digits\<close>








subsection \<open>One token\<close>






subsection \<open>The literal forms\<close>









end
